theory Spec2Isabelle
  imports Complex_Main "HOL-Library.Option_ord"
begin

section \<open>Values arriving in a request\<close>

text \<open>
  A field of the JSON request body, as the handlers see it after \<open>express.json()\<close>.
  \<open>JUndefined\<close> is a field that is absent.  JSON carries no NaN, so a number is a real.
  Arrays and objects, which are always truthy, are left out.
  \<open>truthy\<close> is JavaScript's conversion to boolean, the one \<open>!v\<close> and \<open>v || d\<close> apply.
\<close>

datatype jsval = JUndefined | JNull | JBool bool | JNum real | JStr string

fun truthy :: "jsval \<Rightarrow> bool" where
  "truthy JUndefined = False"
| "truthy JNull = False"
| "truthy (JBool b) = b"
| "truthy (JNum x) = (x \<noteq> 0)"
| "truthy (JStr s) = (s \<noteq> [])"

text \<open>\<open>v || null\<close>\<close>

definition or_null :: "jsval \<Rightarrow> jsval" where
  "or_null v = (if truthy v then v else JNull)"

text \<open>
  \<open>req.body\<close> of the location update.  \<open>user_id\<close> is read by the router of
  \<open>userLocationRoute.js\<close> only; it is an integer or absent, and \<open>!userId\<close> holds for an
  absent one and for 0.
\<close>

record body =
  latitude :: jsval
  longitude :: jsval
  city :: jsval
  state :: jsval
  country :: jsval
  postal_code :: jsval
  user_id :: "nat option"

definition no_user_id :: "nat option \<Rightarrow> bool" where
  "no_user_id u = (case u of None \<Rightarrow> True | Some n \<Rightarrow> n = 0)"

section \<open>The two stores\<close>

text \<open>
  The relational store: the tables the handlers read and write, a row per list element, in
  insertion order.  Columns are named as the queries alias them (\<open>l.latitude\<close>,
  \<open>ul.is_current\<close>, \<open>b.rating\<close>).  The \<open>timestamp\<close> column of \<open>user_locations\<close> is
  filled by the store's clock and is left out.
\<close>

record location_row =
  l_location_id :: nat
  l_latitude :: real
  l_longitude :: real
  l_city :: jsval
  l_state :: jsval
  l_country :: jsval
  l_postal_code :: jsval

record user_location_row =
  ul_user_location_id :: nat
  ul_user_id :: nat
  ul_location_id :: nat
  ul_is_current :: bool

record business_row =
  b_business_id :: nat
  b_name :: string
  b_description :: string
  b_business_type :: string
  b_rating :: real
  b_location_id :: nat
  b_cluster_id :: nat

record mysql_db =
  locations :: "location_row list"
  user_locations :: "user_location_row list"
  businesses :: "business_row list"
  user_preferences :: "(nat \<times> nat) list"
  user_business_likes :: "(nat \<times> nat) list"

text \<open>
  The geometry store of \<open>geoLocationService.js\<close>: one point per user, kept as
  (longitude, latitude), the argument order of \<open>ST_MakePoint\<close>.  \<open>updated_at\<close> is the
  store's clock and is left out.
\<close>

type_synonym pg_db = "nat \<rightharpoonup> real \<times> real"

record world =
  mysql :: mysql_db
  pg :: pg_db

section \<open>What a handler does and what it answers\<close>

text \<open>
  Every statement a handler sends, and every call on its connection, is an event; a
  handler returns the events in the order it performed them.
\<close>

datatype event =
    GetConnection | BeginTransaction | InsertLocation | ClearCurrent | InsertUserLocation
  | Commit | Rollback | Release
  | UpsertUserLocation | PgSelect | PgInsert | PgUpdate
  | SelectCurrentLocation | SelectNearby | SelectHeatmap
  | SelectPreferences | SelectRecommendations

text \<open>
  What the handlers do not decide: which statements the stores reject (\<open>fails\<close>); what
  the numeric columns \<open>latitude\<close> and \<open>longitude\<close> make of a bound value
  (\<open>column_double\<close>, \<open>None\<close> when the INSERT is rejected), the table definitions not
  being part of the source files; and the relational store's functions \<open>RADIANS\<close>,
  \<open>COS\<close>, \<open>SIN\<close> and \<open>ACOS\<close>, which take a double to a double.
\<close>

record env =
  fails :: "event \<Rightarrow> bool"
  column_double :: "jsval \<Rightarrow> real option"
  sql_radians :: "real \<Rightarrow> real"
  sql_cos :: "real \<Rightarrow> real"
  sql_sin :: "real \<Rightarrow> real"
  sql_acos :: "real \<Rightarrow> real"

text \<open>
  The row \<open>RETURNING\<close> gives back (user_id, longitude, latitude), and in the response
  either that row or the \<open>{status: "failed"}\<close> put in its place.
\<close>

type_synonym pg_row = "nat \<times> real \<times> real"

datatype pg_result = PgRow pg_row | PgFailed

record heat_point =
  h_location_id :: nat
  h_latitude :: real
  h_longitude :: real
  h_city :: jsval
  h_state :: jsval
  h_country :: jsval
  h_postal_code :: jsval
  h_is_current :: bool

datatype payload =
    ErrorBody string
  | Updated nat nat
  | UpdatedBoth nat nat pg_result
  | Businesses "(business_row \<times> location_row \<times> real) list"
  | Heatmap "heat_point list" nat "(real \<times> real) option"
  | RecommendedByDistance "(business_row \<times> location_row \<times> real option) list"
  | RecommendedByRating "(business_row \<times> location_row) list"

record response =
  status :: nat
  json :: payload

definition respond :: "nat \<Rightarrow> payload \<Rightarrow> response" where
  "respond s p = \<lparr>status = s, json = p\<rparr>"

section \<open>Double precision\<close>

text \<open>
  The relational store computes the distance in IEEE 754 double precision.  A double is
  the real number it stands for; \<open>rnd\<close> takes a real to the nearest double, a tie going
  to the one whose last bit is 0.  The exponent is not bounded: the values of the
  expression stay far inside the range of the format.  The sum, the difference and the
  product of two doubles are the exact ones, rounded.
\<close>

definition pow2 :: "int \<Rightarrow> real" where
  "pow2 e = (if 0 \<le> e then 2 ^ nat e else 1 / 2 ^ nat (- e))"

definition rne :: "real \<Rightarrow> int" where
  "rne y = (let f = \<lfloor>y\<rfloor> in
            if y - of_int f < 1 / 2 then f
            else if 1 / 2 < y - of_int f then f + 1
            else if even f then f else f + 1)"

definition rnd :: "real \<Rightarrow> real" where
  "rnd x = (if x = 0 then 0
            else (let e = \<lfloor>log 2 \<bar>x\<bar>\<rfloor>
                  in of_int (rne (x / pow2 (e - 52))) * pow2 (e - 52)))"

definition fadd :: "real \<Rightarrow> real \<Rightarrow> real" where
  "fadd x y = rnd (x + y)"

definition fsub :: "real \<Rightarrow> real \<Rightarrow> real" where
  "fsub x y = rnd (x - y)"

definition fmul :: "real \<Rightarrow> real \<Rightarrow> real" where
  "fmul x y = rnd (x * y)"

section \<open>The distance expression of the queries\<close>

text \<open>
  \<open>6371 * acos(cos(radians(?)) * cos(radians(l.latitude)) * cos(radians(l.longitude) -
  radians(?)) + sin(radians(?)) * sin(radians(l.latitude)))\<close>.  The three placeholders
  are \<open>p1\<close>, \<open>p2\<close> and \<open>p3\<close>, in the order of the text; the driver fills the
  placeholders of a statement from its array of values, first to last.  A bound value
  and a column become doubles where a function takes them.  \<open>ACOS\<close> is NULL outside
  \<open>[-1, 1]\<close>.
\<close>

definition acos_sql :: "env \<Rightarrow> real \<Rightarrow> real option" where
  "acos_sql e x = (if -1 \<le> x \<and> x \<le> 1 then Some (sql_acos e x) else None)"

definition distance :: "env \<Rightarrow> real \<Rightarrow> real \<Rightarrow> real \<Rightarrow> real \<Rightarrow> real \<Rightarrow> real option" where
  "distance e p1 p2 p3 lat lng =
     map_option (fmul 6371)
       (acos_sql e
          (fadd (fmul (fmul (sql_cos e (sql_radians e (rnd p1)))
                            (sql_cos e (sql_radians e (rnd lat))))
                      (sql_cos e (fsub (sql_radians e (rnd lng)) (sql_radians e (rnd p2)))))
                (fmul (sql_sin e (sql_radians e (rnd p3)))
                      (sql_sin e (sql_radians e (rnd lat))))))"

section \<open>Reading the relational store\<close>

text \<open>\<open>FROM t JOIN locations l ON t.location_id = l.location_id\<close>\<close>

definition join_locations :: "('a \<Rightarrow> nat) \<Rightarrow> 'a list \<Rightarrow> location_row list \<Rightarrow> ('a \<times> location_row) list" where
  "join_locations key ts ls =
     concat (map (\<lambda>t. map (Pair t) (filter (\<lambda>l. key t = l_location_id l) ls)) ts)"

text \<open>
  \<open>SELECT l.latitude, l.longitude FROM user_locations ul JOIN locations l ON ...
  WHERE ul.user_id = ? AND ul.is_current = TRUE\<close>
\<close>

definition current_location :: "mysql_db \<Rightarrow> nat \<Rightarrow> location_row list" where
  "current_location db userId =
     map snd (filter (\<lambda>(ul, l). ul_user_id ul = userId \<and> ul_is_current ul)
                (join_locations ul_location_id (user_locations db) (locations db)))"

text \<open>
  The distance bound to \<open>[userLat, userLng, userLat]\<close>, as the nearby and the heatmap
  queries bind it, and \<open>HAVING distance < ?\<close>: a row whose distance is NULL is dropped.
\<close>

definition having_distance :: "env \<Rightarrow> real \<Rightarrow> real \<Rightarrow> real \<Rightarrow> ('a \<times> location_row) list \<Rightarrow> ('a \<times> location_row \<times> real) list" where
  "having_distance e userLat userLng radius rows =
     List.map_filter
       (\<lambda>(t, l). case distance e userLat userLng userLat (l_latitude l) (l_longitude l) of
                    None \<Rightarrow> None
                  | Some d \<Rightarrow> if d < radius then Some (t, l, d) else None)
       rows"

definition row_distance :: "'a \<times> location_row \<times> 'd \<Rightarrow> 'd" where
  "row_distance r = snd (snd r)"

text \<open>The query of \<open>GET /api/businesses/nearby\<close>: \<open>... HAVING distance < ? ORDER BY distance LIMIT ?\<close>\<close>

definition nearby_query :: "env \<Rightarrow> mysql_db \<Rightarrow> real \<Rightarrow> real \<Rightarrow> real \<Rightarrow> nat \<Rightarrow> (business_row \<times> location_row \<times> real) list" where
  "nearby_query e db userLat userLng radius limit =
     take limit (sort_key row_distance
       (having_distance e userLat userLng radius
          (join_locations b_location_id (businesses db) (locations db))))"

text \<open>
  The query of \<open>GET /api/user/heatmap\<close>:
  \<open>... WHERE ul.is_current = TRUE HAVING distance < ? ORDER BY distance\<close>
\<close>

definition heatmap_query :: "env \<Rightarrow> mysql_db \<Rightarrow> real \<Rightarrow> real \<Rightarrow> real \<Rightarrow> (user_location_row \<times> location_row \<times> real) list" where
  "heatmap_query e db userLat userLng radius =
     sort_key row_distance
       (having_distance e userLat userLng radius
          (filter (\<lambda>(ul, l). ul_is_current ul)
             (join_locations ul_location_id (user_locations db) (locations db))))"

text \<open>
  The candidates of \<open>GET /api/recommendations\<close>:
  \<open>WHERE b.cluster_id = ? AND b.business_id NOT IN (SELECT business_id FROM
  user_business_likes WHERE user_id = ?)\<close>.  The two placeholders are \<open>c\<close> and \<open>u\<close>;
  the store compares a column with a bound value as numbers.
\<close>

definition liked :: "mysql_db \<Rightarrow> real \<Rightarrow> nat list" where
  "liked db u = map snd (filter (\<lambda>(user, business). real user = u) (user_business_likes db))"

definition candidates :: "mysql_db \<Rightarrow> real \<Rightarrow> real \<Rightarrow> (business_row \<times> location_row) list" where
  "candidates db c u =
     filter (\<lambda>(b, l). real (b_cluster_id b) = c \<and> b_business_id b \<notin> set (liked db u))
       (join_locations b_location_id (businesses db) (locations db))"

text \<open>
  The query of a user with a location.  Its text has six placeholders: the three of the
  distance, then \<open>b.cluster_id = ?\<close>, \<open>user_id = ?\<close> and \<open>LIMIT ?\<close>.  The handler passes
  \<open>[clusterId, userId, userLat, userLng, userLat, limit]\<close>, so the distance gets
  \<open>clusterId\<close>, \<open>userId\<close> and \<open>userLat\<close>, the cluster is compared with \<open>userLng\<close>, and the
  likes are those of the user whose id is \<open>userLat\<close>.  \<open>ORDER BY distance\<close> is ascending
  and puts NULL first.
\<close>

definition recommend_by_distance :: "env \<Rightarrow> mysql_db \<Rightarrow> nat \<Rightarrow> nat \<Rightarrow> real \<Rightarrow> real \<Rightarrow> nat \<Rightarrow> (business_row \<times> location_row \<times> real option) list" where
  "recommend_by_distance e db clusterId userId userLat userLng limit =
     take limit (sort_key row_distance
       (map (\<lambda>(b, l). (b, l, distance e (real clusterId) (real userId) userLat
                                 (l_latitude l) (l_longitude l)))
          (candidates db userLng userLat)))"

text \<open>
  The query of a user without a location has three placeholders and is passed
  \<open>[clusterId, userId, limit]\<close>; \<open>ORDER BY b.rating DESC LIMIT ?\<close>.
\<close>

definition recommend_by_rating :: "mysql_db \<Rightarrow> nat \<Rightarrow> nat \<Rightarrow> nat \<Rightarrow> (business_row \<times> location_row) list" where
  "recommend_by_rating db clusterId userId limit =
     take limit (sort_key (\<lambda>(b, l). - b_rating b)
       (candidates db (real clusterId) (real userId)))"

text \<open>\<open>SELECT cluster_id FROM user_preferences WHERE user_id = ?\<close>\<close>

definition preferences :: "mysql_db \<Rightarrow> nat \<Rightarrow> nat list" where
  "preferences db userId = map snd (filter (\<lambda>(u, c). u = userId) (user_preferences db))"

section \<open>The geometry store's service (\<open>geoLocationService.js\<close>)\<close>

datatype pg_error = NotNumbers | LatitudeRange | LongitudeRange | QueryFailed

text \<open>
  \<open>validateCoordinates\<close> throws or returns nothing; here it hands back the two numbers it
  has checked, which the callers then bind.
\<close>

fun validateCoordinates :: "jsval \<Rightarrow> jsval \<Rightarrow> pg_error + real \<times> real" where
  "validateCoordinates (JNum lat) (JNum lon) =
     (if lat < -90 \<or> lat > 90 then Inl LatitudeRange
      else if lon < -180 \<or> lon > 180 then Inl LongitudeRange
      else Inr (lat, lon))"
| "validateCoordinates _ _ = Inl NotNumbers"

definition getUserLocation :: "env \<Rightarrow> nat \<Rightarrow> pg_db \<Rightarrow> pg_error + pg_row option" where
  "getUserLocation e userId db =
     (if fails e PgSelect then Inl QueryFailed
      else Inr (case db userId of None \<Rightarrow> None | Some (lon, lat) \<Rightarrow> Some (userId, lon, lat)))"

text \<open>
  \<open>INSERT ... RETURNING ...\<close>; \<open>upsertUserLocation\<close> calls it only for a user without a
  point.
\<close>

definition insertUserLocation :: "env \<Rightarrow> nat \<Rightarrow> real \<Rightarrow> real \<Rightarrow> pg_db \<Rightarrow> (pg_error + pg_row option) \<times> pg_db" where
  "insertUserLocation e userId lat lon db =
     (if fails e PgInsert then (Inl QueryFailed, db)
      else (Inr (Some (userId, lon, lat)), db(userId \<mapsto> (lon, lat))))"

text \<open>\<open>UPDATE ... WHERE user_id = $1 RETURNING ...\<close>: \<open>result.rows[0]\<close> is undefined when no row matched.\<close>

definition updateUserLocation :: "env \<Rightarrow> nat \<Rightarrow> real \<Rightarrow> real \<Rightarrow> pg_db \<Rightarrow> (pg_error + pg_row option) \<times> pg_db" where
  "updateUserLocation e userId lat lon db =
     (if fails e PgUpdate then (Inl QueryFailed, db)
      else case db userId of
             None \<Rightarrow> (Inr None, db)
           | Some _ \<Rightarrow> (Inr (Some (userId, lon, lat)), db(userId \<mapsto> (lon, lat))))"

definition upsertUserLocation :: "env \<Rightarrow> nat \<Rightarrow> jsval \<Rightarrow> jsval \<Rightarrow> pg_db \<Rightarrow> (pg_error + pg_row option) \<times> pg_db \<times> event list" where
  "upsertUserLocation e userId latv lonv db =
     (case validateCoordinates latv lonv of
        Inl err \<Rightarrow> (Inl err, db, [])
      | Inr (lat, lon) \<Rightarrow>
          (case getUserLocation e userId db of
             Inl err \<Rightarrow> (Inl err, db, [PgSelect])
           | Inr (Some existingUser) \<Rightarrow>
               (let (r, db') = updateUserLocation e userId lat lon db
                in (r, db', [PgSelect, PgUpdate]))
           | Inr None \<Rightarrow>
               (let (r, db') = insertUserLocation e userId lat lon db
                in (r, db', [PgSelect, PgInsert]))))"

section \<open>Writing the relational store\<close>

text \<open>
  \<open>insertId\<close>: the key columns count upwards (AUTO_INCREMENT); a new row gets one more
  than the largest key in its table.
\<close>

definition next_id :: "nat list \<Rightarrow> nat" where
  "next_id ids = Suc (fold max ids 0)"

text \<open>\<open>INSERT INTO locations (latitude, longitude, city, state, country, postal_code) VALUES (...)\<close>\<close>

definition insert_location :: "env \<Rightarrow> body \<Rightarrow> mysql_db \<Rightarrow> (mysql_db \<times> nat) option" where
  "insert_location e req db =
     (if fails e InsertLocation then None
      else case (column_double e (latitude req), column_double e (longitude req)) of
             (Some lat, Some lng) \<Rightarrow>
               (let locationId = next_id (map l_location_id (locations db))
                in Some (db\<lparr>locations := locations db @
                           [\<lparr>l_location_id = locationId, l_latitude = lat, l_longitude = lng,
                             l_city = or_null (city req), l_state = or_null (state req),
                             l_country = or_null (country req),
                             l_postal_code = or_null (postal_code req)\<rparr>]\<rparr>, locationId))
           | _ \<Rightarrow> None)"

text \<open>\<open>UPDATE user_locations SET is_current = FALSE WHERE user_id = ?\<close>\<close>

definition clear_current :: "nat \<Rightarrow> mysql_db \<Rightarrow> mysql_db" where
  "clear_current userId db =
     db\<lparr>user_locations :=
          map (\<lambda>ul. if ul_user_id ul = userId then ul\<lparr>ul_is_current := False\<rparr> else ul)
            (user_locations db)\<rparr>"

text \<open>\<open>INSERT INTO user_locations (user_id, location_id, is_current) VALUES (?, ?, TRUE)\<close>\<close>

definition insert_user_location :: "env \<Rightarrow> nat \<Rightarrow> nat \<Rightarrow> mysql_db \<Rightarrow> (mysql_db \<times> nat) option" where
  "insert_user_location e userId locationId db =
     (if fails e InsertUserLocation then None
      else (let userLocationId = next_id (map ul_user_location_id (user_locations db))
            in Some (db\<lparr>user_locations := user_locations db @
                        [\<lparr>ul_user_location_id = userLocationId, ul_user_id = userId,
                          ul_location_id = locationId, ul_is_current = True\<rparr>]\<rparr>,
                     userLocationId)))"

section \<open>The location update\<close>

text \<open>
  A handler's result: the stores afterwards, the response (\<open>None\<close> when the handler ends
  without sending one), and its events.  The \<open>catch\<close> block rolls back and answers 500;
  \<open>finally\<close> releases the connection.  \<open>details: error.message\<close> of the 500 is left out,
  and so is a ROLLBACK or a release that throws in its turn.
\<close>

definition failed :: "world \<Rightarrow> event list \<Rightarrow> world \<times> response option \<times> event list" where
  "failed w t =
     (w, Some (respond 500 (ErrorBody ''Failed to update location'')), t @ [Rollback, Release])"

definition rejected :: "world \<Rightarrow> string \<Rightarrow> world \<times> response option \<times> event list" where
  "rejected w msg = (w, Some (respond 400 (ErrorBody msg)), [GetConnection, Release, Release])"

text \<open>
  The three writes of the transaction, on the connection's view of the store; \<open>Inl\<close> holds
  the events up to the statement that threw.
\<close>

definition primary_writes :: "env \<Rightarrow> nat \<Rightarrow> body \<Rightarrow> mysql_db \<Rightarrow> event list + mysql_db \<times> nat \<times> nat" where
  "primary_writes e userId req db =
     (if fails e BeginTransaction then Inl [GetConnection, BeginTransaction]
      else (case insert_location e req db of
              None \<Rightarrow> Inl [GetConnection, BeginTransaction, InsertLocation]
            | Some (db1, locationId) \<Rightarrow>
                (if fails e ClearCurrent
                 then Inl [GetConnection, BeginTransaction, InsertLocation, ClearCurrent]
                 else (case insert_user_location e userId locationId (clear_current userId db1) of
                         None \<Rightarrow> Inl [GetConnection, BeginTransaction, InsertLocation,
                                      ClearCurrent, InsertUserLocation]
                       | Some (db3, userLocationId) \<Rightarrow>
                           Inr (db3, locationId, userLocationId)))))"

definition written :: "event list" where
  "written = [GetConnection, BeginTransaction, InsertLocation, ClearCurrent, InsertUserLocation]"

text \<open>\<open>router.post("/location")\<close> of \<open>userLocationRoute.js\<close>\<close>

definition post_location :: "env \<Rightarrow> body \<Rightarrow> world \<Rightarrow> world \<times> response option \<times> event list" where
  "post_location e req w =
     (if fails e GetConnection then (w, None, [GetConnection])
      else if no_user_id (user_id req) then rejected w ''User ID is required for testing''
      else if \<not> truthy (latitude req) \<or> \<not> truthy (longitude req)
      then rejected w ''Latitude and longitude are required''
      else (let userId = the (user_id req) in
        case primary_writes e userId req (mysql w) of
          Inl t \<Rightarrow> failed w t
        | Inr (db3, locationId, userLocationId) \<Rightarrow>
            (let (r, pg', t) = upsertUserLocation e userId (latitude req) (longitude req) (pg w);
                 pgResult = (case r of Inr (Some row) \<Rightarrow> PgRow row | _ \<Rightarrow> PgFailed)
             in if fails e Commit
                then failed (w\<lparr>pg := pg'\<rparr>) (written @ UpsertUserLocation # t @ [Commit])
                else (\<lparr>mysql = db3, pg = pg'\<rparr>,
                      Some (respond 201 (UpdatedBoth locationId userLocationId pgResult)),
                      written @ UpsertUserLocation # t @ [Commit, Release]))))"

text \<open>\<open>app.post("/api/user/location")\<close>; \<open>userId\<close> is \<open>req.user.id\<close> of the verified token.\<close>

definition post_api_user_location :: "env \<Rightarrow> nat \<Rightarrow> body \<Rightarrow> world \<Rightarrow> world \<times> response option \<times> event list" where
  "post_api_user_location e userId req w =
     (if fails e GetConnection then (w, None, [GetConnection])
      else if \<not> truthy (latitude req) \<or> \<not> truthy (longitude req)
      then rejected w ''Latitude and longitude are required''
      else case primary_writes e userId req (mysql w) of
             Inl t \<Rightarrow> failed w t
           | Inr (db3, locationId, userLocationId) \<Rightarrow>
               if fails e Commit then failed w (written @ [Commit])
               else (w\<lparr>mysql := db3\<rparr>,
                     Some (respond 201 (Updated locationId userLocationId)),
                     written @ [Commit, Release]))"

text \<open>A run of location updates, against either handler, each with its own environment.\<close>

datatype call = Router env body | Api env nat body

fun updateLocation :: "call \<Rightarrow> world \<Rightarrow> world \<times> response option \<times> event list" where
  "updateLocation (Router e req) w = post_location e req w"
| "updateLocation (Api e userId req) w = post_api_user_location e userId req w"

fun caller :: "call \<Rightarrow> nat option" where
  "caller (Router e req) = user_id req"
| "caller (Api e userId req) = Some userId"

definition succeeded :: "world \<times> response option \<times> event list \<Rightarrow> bool" where
  "succeeded r = (case fst (snd r) of None \<Rightarrow> False | Some a \<Rightarrow> status a = 201)"

fun updates :: "call list \<Rightarrow> world \<Rightarrow> world" where
  "updates [] w = w"
| "updates (c # cs) w = updates cs (fst (updateLocation c w))"

text \<open>The rows of \<open>user_locations\<close> that are current for a user.\<close>

definition current_rows :: "mysql_db \<Rightarrow> nat \<Rightarrow> user_location_row list" where
  "current_rows db userId =
     filter (\<lambda>ul. ul_user_id ul = userId \<and> ul_is_current ul) (user_locations db)"

section \<open>The queries' handlers\<close>

text \<open>
  A query-string parameter is \<open>None\<close> when absent or empty, and \<open>Some x\<close> when the store
  reads it as the number \<open>x\<close>; \<open>p || d\<close> takes the default for \<open>None\<close> only, a string such as "0" being
  truthy.  \<open>limit\<close> is what \<open>parseInt\<close> makes of it.  The store rejects a negative LIMIT.
\<close>

definition or_default :: "'a option \<Rightarrow> 'a \<Rightarrow> 'a" where
  "or_default p d = (case p of None \<Rightarrow> d | Some x \<Rightarrow> x)"

definition server_error :: "string \<Rightarrow> response" where
  "server_error msg = respond 500 (ErrorBody msg)"

text \<open>\<open>app.get("/api/businesses/nearby")\<close>\<close>

definition get_businesses_nearby :: "env \<Rightarrow> nat \<Rightarrow> real option \<Rightarrow> int option \<Rightarrow> mysql_db \<Rightarrow> response \<times> event list" where
  "get_businesses_nearby e userId qradius qlimit db =
     (let radius = or_default qradius 10; limit = or_default qlimit 20 in
      if fails e SelectCurrentLocation
      then (server_error ''Failed to retrieve nearby businesses'', [SelectCurrentLocation])
      else case current_location db userId of
             [] \<Rightarrow> (respond 404 (ErrorBody ''User location not found''), [SelectCurrentLocation])
           | userLocation # _ \<Rightarrow>
               if fails e SelectNearby \<or> limit < 0
               then (server_error ''Failed to retrieve nearby businesses'',
                     [SelectCurrentLocation, SelectNearby])
               else (respond 200 (Businesses
                       (nearby_query e db (l_latitude userLocation) (l_longitude userLocation)
                          radius (nat limit))),
                     [SelectCurrentLocation, SelectNearby]))"

text \<open>\<open>app.get("/api/user/heatmap")\<close>; the \<open>message\<close> of the empty answer is left out.\<close>

definition format_location :: "user_location_row \<times> location_row \<times> real \<Rightarrow> heat_point" where
  "format_location loc =
     (let l = fst (snd loc) in
      \<lparr>h_location_id = l_location_id l, h_latitude = l_latitude l, h_longitude = l_longitude l,
       h_city = l_city l, h_state = l_state l, h_country = l_country l,
       h_postal_code = l_postal_code l, h_is_current = True\<rparr>)"

definition get_user_heatmap :: "env \<Rightarrow> nat \<Rightarrow> real option \<Rightarrow> mysql_db \<Rightarrow> response \<times> event list" where
  "get_user_heatmap e userId qradius db =
     (let radius = or_default qradius 10 in
      if fails e SelectCurrentLocation
      then (server_error ''Failed to retrieve heatmap data'', [SelectCurrentLocation])
      else case current_location db userId of
             [] \<Rightarrow> (respond 200 (Heatmap [] 0 None), [SelectCurrentLocation])
           | userLocation # _ \<Rightarrow>
               if fails e SelectHeatmap
               then (server_error ''Failed to retrieve heatmap data'',
                     [SelectCurrentLocation, SelectHeatmap])
               else (let userLat = l_latitude userLocation; userLng = l_longitude userLocation;
                         locs = map format_location (heatmap_query e db userLat userLng radius)
                     in (respond 200 (Heatmap locs (length locs) (Some (userLat, userLng))),
                         [SelectCurrentLocation, SelectHeatmap])))"

text \<open>\<open>app.get("/api/recommendations")\<close>\<close>

definition get_recommendations :: "env \<Rightarrow> nat \<Rightarrow> int option \<Rightarrow> mysql_db \<Rightarrow> response \<times> event list" where
  "get_recommendations e userId qlimit db =
     (let limit = or_default qlimit 10 in
      if fails e SelectPreferences
      then (server_error ''Failed to retrieve recommendations'', [SelectPreferences])
      else case preferences db userId of
             [] \<Rightarrow> (respond 404 (ErrorBody ''User preferences not found''), [SelectPreferences])
           | clusterId # _ \<Rightarrow>
               if fails e SelectCurrentLocation
               then (server_error ''Failed to retrieve recommendations'',
                     [SelectPreferences, SelectCurrentLocation])
               else if fails e SelectRecommendations \<or> limit < 0
               then (server_error ''Failed to retrieve recommendations'',
                     [SelectPreferences, SelectCurrentLocation, SelectRecommendations])
               else (case current_location db userId of
                       [] \<Rightarrow> (respond 200 (RecommendedByRating
                                 (recommend_by_rating db clusterId userId (nat limit))),
                               [SelectPreferences, SelectCurrentLocation, SelectRecommendations])
                     | userLocation # _ \<Rightarrow>
                         (respond 200 (RecommendedByDistance
                            (recommend_by_distance e db clusterId userId (l_latitude userLocation)
                               (l_longitude userLocation) (nat limit))),
                          [SelectPreferences, SelectCurrentLocation, SelectRecommendations])))"

section \<open>Sample environments, requests and stores\<close>

text \<open>
  A sample of the store's functions.  \<open>RADIANS\<close> multiplies by the double nearest to
  \<open>\<pi> / 180\<close>.  \<open>COS\<close>, \<open>SIN\<close> and \<open>ACOS\<close> are those of the C library: on the arguments
  that the samples below lead to, the doubles that library returns, written as fractions,
  and on every other argument the double nearest to the exact value.
\<close>

definition deg :: real where
  "deg = 5030569068109113 / 288230376151711744"

definition libm_radians :: "real \<Rightarrow> real" where
  "libm_radians x = fmul x deg"

definition libm_cos :: "real \<Rightarrow> real" where
  "libm_cos x =
     (if x = 0 then 1
      else if x = 6288211335136391 / 9007199254740992 then 6899914937159737 / 9007199254740992
      else if x = 3230568573426321 / 4503599627370496 then 6787495625539407 / 9007199254740992
      else if x = 5895198126690367 / 4503599627370496 then 291404338770025 / 1125899906842624
      else rnd (cos x))"

definition libm_sin :: "real \<Rightarrow> real" where
  "libm_sin x =
     (if x = 0 then 0
      else if x = 6288211335136391 / 9007199254740992 then 1447429019731335 / 2251799813685248
      else if x = 3230568573426321 / 4503599627370496 then 1480277456000439 / 2251799813685248
      else rnd (sin x))"

definition libm_acos :: "real \<Rightarrow> real" where
  "libm_acos x =
     (if x = 1 then 0
      else if x = 9007199254740991 / 9007199254740992 then 1 / 67108864
      else if x = 3571658790648605 / 18014398509481984 then 6175367038784883 / 4503599627370496
      else rnd (arccos x))"

text \<open>Stores that accept every statement; the numeric columns take a JSON number as it is.\<close>

definition no_faults :: env where
  "no_faults = \<lparr>fails = (\<lambda>ev. False),
                 column_double = (\<lambda>v. case v of JNum x \<Rightarrow> Some x | _ \<Rightarrow> None),
                 sql_radians = libm_radians, sql_cos = libm_cos, sql_sin = libm_sin,
                 sql_acos = libm_acos\<rparr>"

text \<open>The geometry store is unreachable.\<close>

definition pg_down :: env where
  "pg_down = no_faults\<lparr>fails := (\<lambda>ev. ev = PgSelect \<or> ev = PgInsert \<or> ev = PgUpdate)\<rparr>"

text \<open>The relational store rejects the COMMIT.\<close>

definition commit_down :: env where
  "commit_down = no_faults\<lparr>fails := (\<lambda>ev. ev = Commit)\<rparr>"

definition empty_db :: mysql_db where
  "empty_db = \<lparr>locations = [], user_locations = [], businesses = [],
                user_preferences = [], user_business_likes = []\<rparr>"

definition empty_world :: world where
  "empty_world = \<lparr>mysql = empty_db, pg = Map.empty\<rparr>"

definition sent :: "nat \<Rightarrow> jsval \<Rightarrow> jsval \<Rightarrow> body" where
  "sent u lat lon = \<lparr>latitude = lat, longitude = lon, city = JUndefined, state = JUndefined,
                      country = JUndefined, postal_code = JUndefined, user_id = Some u\<rparr>"

definition place :: "nat \<Rightarrow> real \<Rightarrow> real \<Rightarrow> location_row" where
  "place i lat lng = \<lparr>l_location_id = i, l_latitude = lat, l_longitude = lng, l_city = JNull,
                       l_state = JNull, l_country = JNull, l_postal_code = JNull\<rparr>"

definition shop :: "nat \<Rightarrow> real \<Rightarrow> nat \<Rightarrow> nat \<Rightarrow> business_row" where
  "shop i rating loc cluster = \<lparr>b_business_id = i, b_name = ''shop'', b_description = [],
                                 b_business_type = ''cafe'', b_rating = rating,
                                 b_location_id = loc, b_cluster_id = cluster\<rparr>"

text \<open>
  User 5 is at (40, -75), location 1.  Of the two businesses of cluster 3, the first listed
  is at (0, 0), some 8736 km away, and the second at the user's own coordinates.
\<close>

definition sample_db :: mysql_db where
  "sample_db = \<lparr>locations = [place 1 40 (-75), place 2 0 0, place 3 40 (-75)],
                 user_locations = [\<lparr>ul_user_location_id = 1, ul_user_id = 5,
                                     ul_location_id = 1, ul_is_current = True\<rparr>],
                 businesses = [shop 1 4.8 2 3, shop 2 3.2 3 3],
                 user_preferences = [(5, 3)],
                 user_business_likes = []\<rparr>"

text \<open>User 9, at (41.1, -75), is the only user with a location.\<close>

definition lone_db :: mysql_db where
  "lone_db = \<lparr>locations = [place 1 41.1 (-75)],
               user_locations = [\<lparr>ul_user_location_id = 1, ul_user_id = 9,
                                   ul_location_id = 1, ul_is_current = True\<rparr>],
               businesses = [], user_preferences = [], user_business_likes = []\<rparr>"

text \<open>
  User 1 is in cluster 3 and has no location.  Businesses 1, 2 and 3 of that cluster are
  rated 4.8, 3.2 and 4.9; business 4 of the cluster is one the user likes, and business 5
  is of another cluster.
\<close>

definition rated_db :: mysql_db where
  "rated_db = \<lparr>locations = [place 1 40 (-75), place 2 41 (-74), place 3 42 (-73)],
                user_locations = [],
                businesses = [shop 1 4.8 1 3, shop 2 3.2 2 3, shop 3 4.9 3 3, shop 4 5 1 3,
                              shop 5 5 2 7],
                user_preferences = [(1, 3)],
                user_business_likes = [(1, 4)]\<rparr>"

text \<open>
  User 5 is in cluster 3, likes nothing, and is at (45, 7), location 1.  Business 1 is of
  cluster 3 and business 2 of cluster 7; both are at the user's coordinates.
\<close>

definition crossed_db :: mysql_db where
  "crossed_db = \<lparr>locations = [place 1 45 7, place 2 45 7, place 3 45 7],
                  user_locations = [\<lparr>ul_user_location_id = 1, ul_user_id = 5,
                                      ul_location_id = 1, ul_is_current = True\<rparr>],
                  businesses = [shop 1 4.8 2 3, shop 2 3.2 3 7],
                  user_preferences = [(5, 3)],
                  user_business_likes = []\<rparr>"

section \<open>Exactly one current row\<close>

lemma filter_cleared_same:
  "filter (\<lambda>ul. ul_user_id ul = u \<and> ul_is_current ul)
     (map (\<lambda>ul. if ul_user_id ul = u then ul\<lparr>ul_is_current := False\<rparr> else ul) xs) = []"
  by (induction xs) auto

lemma filter_cleared_other:
  "v \<noteq> u \<Longrightarrow>
   filter (\<lambda>ul. ul_user_id ul = v \<and> ul_is_current ul)
     (map (\<lambda>ul. if ul_user_id ul = u then ul\<lparr>ul_is_current := False\<rparr> else ul) xs) =
   filter (\<lambda>ul. ul_user_id ul = v \<and> ul_is_current ul) xs"
  by (induction xs) auto

lemma current_rows_clear_same: "current_rows (clear_current u db) u = []"
  by (simp add: current_rows_def clear_current_def filter_cleared_same)

lemma current_rows_clear_other:
  "v \<noteq> u \<Longrightarrow> current_rows (clear_current u db) v = current_rows db v"
  by (simp add: current_rows_def clear_current_def filter_cleared_other)

lemma primary_writes_user_locations:
  assumes "primary_writes e u req db = Inr (db3, l, ul)"
  shows "user_locations db3 = user_locations (clear_current u db) @
           [\<lparr>ul_user_location_id = ul, ul_user_id = u, ul_location_id = l, ul_is_current = True\<rparr>]"
  using assms
  by (auto simp: primary_writes_def insert_location_def insert_user_location_def Let_def
        clear_current_def split: if_splits option.splits prod.splits)

lemma primary_writes_current:
  assumes "primary_writes e u req db = Inr (db3, l, ul)"
  shows "current_rows db3 u =
           [\<lparr>ul_user_location_id = ul, ul_user_id = u, ul_location_id = l, ul_is_current = True\<rparr>]"
  using primary_writes_user_locations[OF assms] current_rows_clear_same[of u db]
  by (simp add: current_rows_def)

lemma primary_writes_other:
  assumes "primary_writes e u req db = Inr (db3, l, ul)" and "v \<noteq> u"
  shows "current_rows db3 v = current_rows db v"
  using primary_writes_user_locations[OF assms(1)] current_rows_clear_other[OF assms(2), of db]
    assms(2)
  by (simp add: current_rows_def)

text \<open>
  An update either leaves the relational store as it was and does not answer 201, or
  installs what the three writes made of it for the calling user.
\<close>

lemma post_location_cases:
  "(mysql (fst (post_location e req w)) = mysql w \<and> \<not> succeeded (post_location e req w)) \<or>
   (\<exists>u l ul. user_id req = Some u \<and>
      primary_writes e u req (mysql w) = Inr (mysql (fst (post_location e req w)), l, ul))"
  by (auto simp: post_location_def rejected_def failed_def succeeded_def respond_def Let_def
        no_user_id_def split: sum.splits prod.splits option.splits)

lemma post_api_user_location_cases:
  "(mysql (fst (post_api_user_location e u req w)) = mysql w \<and>
      \<not> succeeded (post_api_user_location e u req w)) \<or>
   (\<exists>l ul. primary_writes e u req (mysql w) =
      Inr (mysql (fst (post_api_user_location e u req w)), l, ul))"
  by (auto simp: post_api_user_location_def rejected_def failed_def succeeded_def respond_def
        split: sum.splits prod.splits option.splits)

lemma updateLocation_cases:
  "(mysql (fst (updateLocation c w)) = mysql w \<and> \<not> succeeded (updateLocation c w)) \<or>
   (\<exists>e req u l ul. caller c = Some u \<and>
      primary_writes e u req (mysql w) = Inr (mysql (fst (updateLocation c w)), l, ul))"
proof (cases c)
  case (Router e req)
  then show ?thesis using post_location_cases[of e req w] by auto
next
  case (Api e u req)
  then show ?thesis using post_api_user_location_cases[of e u req w] by auto
qed

lemma updateLocation_sets_one:
  assumes "caller c = Some U" and "succeeded (updateLocation c w)"
  shows "\<exists>l ul. user_locations (mysql (fst (updateLocation c w))) =
           user_locations (clear_current U (mysql w)) @
             [\<lparr>ul_user_location_id = ul, ul_user_id = U, ul_location_id = l,
               ul_is_current = True\<rparr>] \<and>
           current_rows (mysql (fst (updateLocation c w))) U =
             [\<lparr>ul_user_location_id = ul, ul_user_id = U, ul_location_id = l,
               ul_is_current = True\<rparr>]"
  using updateLocation_cases[of c w] assms
  by (auto dest: primary_writes_current primary_writes_user_locations)

lemma updateLocation_keeps_one:
  assumes "length (current_rows (mysql w) U) = 1"
  shows "length (current_rows (mysql (fst (updateLocation c w))) U) = 1"
proof -
  from updateLocation_cases[of c w] show ?thesis
  proof
    assume "mysql (fst (updateLocation c w)) = mysql w \<and> \<not> succeeded (updateLocation c w)"
    with assms show ?thesis by simp
  next
    assume "\<exists>e req u l ul. caller c = Some u \<and>
      primary_writes e u req (mysql w) = Inr (mysql (fst (updateLocation c w)), l, ul)"
    then obtain e req u l ul where
      pw: "primary_writes e u req (mysql w) = Inr (mysql (fst (updateLocation c w)), l, ul)"
      by blast
    show ?thesis
    proof (cases "u = U")
      case True
      with primary_writes_current[OF pw] show ?thesis by simp
    next
      case False
      then have "U \<noteq> u" by simp
      from primary_writes_other[OF pw this] assms show ?thesis by simp
    qed
  qed
qed

lemma updates_keep_one:
  "length (current_rows (mysql w) U) = 1 \<Longrightarrow>
   length (current_rows (mysql (updates cs w)) U) = 1"
  by (induction cs arbitrary: w) (simp_all add: updateLocation_keeps_one)

lemma updates_append: "updates (xs @ ys) w = updates ys (updates xs w)"
  by (induction xs arbitrary: w) simp_all

text \<open>
  C1.  Take any run of location updates, by any users, against either handler, whatever
  the stores were before and whichever calls fail.  If the run holds a call by user \<open>U\<close>
  that answered 201, then at the end of the run exactly one row of \<open>user_locations\<close> for
  \<open>U\<close> is current.  That call itself set every row of \<open>U\<close> to not current and appended
  one current row, which is then the only current one.
\<close>

theorem updateLocation_one_current:
  assumes "caller c = Some U" and "succeeded (updateLocation c (updates before w))"
  shows "length (current_rows (mysql (updates (before @ c # after) w)) U) = 1 \<and>
         (\<exists>l ul. user_locations (mysql (fst (updateLocation c (updates before w)))) =
            user_locations (clear_current U (mysql (updates before w))) @
              [\<lparr>ul_user_location_id = ul, ul_user_id = U, ul_location_id = l,
                ul_is_current = True\<rparr>] \<and>
            current_rows (mysql (fst (updateLocation c (updates before w)))) U =
              [\<lparr>ul_user_location_id = ul, ul_user_id = U, ul_location_id = l,
                ul_is_current = True\<rparr>])"
proof
  from updateLocation_sets_one[OF assms]
  have "length (current_rows (mysql (fst (updateLocation c (updates before w)))) U) = 1"
    by auto
  from updates_keep_one[OF this, of after]
  show "length (current_rows (mysql (updates (before @ c # after) w)) U) = 1"
    by (simp add: updates_append)
next
  from updateLocation_sets_one[OF assms]
  show "\<exists>l ul. user_locations (mysql (fst (updateLocation c (updates before w)))) =
            user_locations (clear_current U (mysql (updates before w))) @
              [\<lparr>ul_user_location_id = ul, ul_user_id = U, ul_location_id = l,
                ul_is_current = True\<rparr>] \<and>
            current_rows (mysql (fst (updateLocation c (updates before w)))) U =
              [\<lparr>ul_user_location_id = ul, ul_user_id = U, ul_location_id = l,
                ul_is_current = True\<rparr>]" .
qed

lemmas sample_defs =
  no_faults_def pg_down_def commit_down_def empty_db_def empty_world_def sent_def place_def
  shop_def sample_db_def rated_db_def lone_db_def crossed_db_def

lemmas update_defs =
  post_location_def post_api_user_location_def primary_writes_def insert_location_def
  insert_user_location_def clear_current_def next_id_def upsertUserLocation_def
  getUserLocation_def insertUserLocation_def updateUserLocation_def failed_def rejected_def
  written_def respond_def succeeded_def no_user_id_def or_null_def current_rows_def

text \<open>
  User 5 moves twice through the router and user 7 once through the other handler, whose
  second try the store rejects: user 5 has one current row, the second one.
\<close>

theorem updateLocation_one_current_witness:
  "caller (Router no_faults (sent 5 (JNum 41) (JNum (-74)))) = Some 5 \<and>
   succeeded (updateLocation (Router no_faults (sent 5 (JNum 41) (JNum (-74))))
     (updates [Router no_faults (sent 5 (JNum 40) (JNum (-75)))] empty_world)) \<and>
   current_rows (mysql (updates
       ([Router no_faults (sent 5 (JNum 40) (JNum (-75)))] @
        Router no_faults (sent 5 (JNum 41) (JNum (-74))) #
        [Api no_faults 7 (sent 0 (JNum 10) (JNum 20)),
         Api commit_down 7 (sent 0 (JNum 11) (JNum 21))]) empty_world)) 5 =
     [\<lparr>ul_user_location_id = 2, ul_user_id = 5, ul_location_id = 2, ul_is_current = True\<rparr>]"
  using updateLocation_one_current
    [of "Router no_faults (sent 5 (JNum 41) (JNum (-74)))" 5
        "[Router no_faults (sent 5 (JNum 40) (JNum (-75)))]" empty_world
        "[Api no_faults 7 (sent 0 (JNum 10) (JNum 20)),
          Api commit_down 7 (sent 0 (JNum 11) (JNum 21))]"]
  by (simp add: sample_defs update_defs)

section \<open>A failing mirror write\<close>

lemma upsertUserLocation_Inl:
  "upsertUserLocation e u la lo db = (Inl err, db', t) \<Longrightarrow> db' = db"
  by (auto simp: upsertUserLocation_def getUserLocation_def updateUserLocation_def
        insertUserLocation_def split: sum.splits option.splits if_splits prod.splits)

lemma upsertUserLocation_events:
  "upsertUserLocation e u la lo db = (r, db', t) \<Longrightarrow> set t \<subseteq> {PgSelect, PgInsert, PgUpdate}"
  by (auto simp: upsertUserLocation_def getUserLocation_def updateUserLocation_def
        insertUserLocation_def split: sum.splits option.splits if_splits prod.splits)

text \<open>
  C3.  The router's update with a user id and truthy coordinates, whose three writes and
  whose COMMIT the relational store accepts, while \<open>upsertUserLocation\<close> throws (for any
  reason: the validation of the coordinates, or the geometry store).  Then the relational
  store holds the result of the three writes and no ROLLBACK was issued, the geometry
  store is as it was, and the answer is 201 with the two ids under \<open>mysql\<close> and
  \<open>{status: "failed"}\<close> under \<open>postgres\<close>.
\<close>

theorem mirror_failure_isolated:
  assumes "\<not> fails e GetConnection" and "user_id req = Some userId" and "userId \<noteq> 0"
    and "truthy (latitude req)" and "truthy (longitude req)"
    and "primary_writes e userId req (mysql w) = Inr (db3, locationId, userLocationId)"
    and "\<not> fails e Commit"
    and "upsertUserLocation e userId (latitude req) (longitude req) (pg w) = (Inl err, pg', t)"
  shows "post_location e req w =
           (\<lparr>mysql = db3, pg = pg w\<rparr>,
            Some (respond 201 (UpdatedBoth locationId userLocationId PgFailed)),
            written @ UpsertUserLocation # t @ [Commit, Release]) \<and>
         Rollback \<notin> set (written @ UpsertUserLocation # t @ [Commit, Release])"
proof
  show "post_location e req w =
           (\<lparr>mysql = db3, pg = pg w\<rparr>,
            Some (respond 201 (UpdatedBoth locationId userLocationId PgFailed)),
            written @ UpsertUserLocation # t @ [Commit, Release])"
    using assms upsertUserLocation_Inl[OF assms(8)]
    by (simp add: post_location_def no_user_id_def)
next
  show "Rollback \<notin> set (written @ UpsertUserLocation # t @ [Commit, Release])"
    using upsertUserLocation_events[OF assms(8)] by (auto simp: written_def)
qed

theorem mirror_failure_isolated_witness:
  "\<not> fails pg_down GetConnection \<and> user_id (sent 5 (JNum 40) (JNum (-75))) = Some 5 \<and>
   (5::nat) \<noteq> 0 \<and> truthy (latitude (sent 5 (JNum 40) (JNum (-75)))) \<and>
   truthy (longitude (sent 5 (JNum 40) (JNum (-75)))) \<and>
   primary_writes pg_down 5 (sent 5 (JNum 40) (JNum (-75))) (mysql empty_world) =
     Inr (empty_db\<lparr>locations := [place 1 40 (-75)],
                    user_locations := [\<lparr>ul_user_location_id = 1, ul_user_id = 5,
                                        ul_location_id = 1, ul_is_current = True\<rparr>]\<rparr>, 1, 1) \<and>
   \<not> fails pg_down Commit \<and>
   upsertUserLocation pg_down 5 (latitude (sent 5 (JNum 40) (JNum (-75))))
     (longitude (sent 5 (JNum 40) (JNum (-75)))) (pg empty_world) =
     (Inl QueryFailed, pg empty_world, [PgSelect]) \<and>
   post_location pg_down (sent 5 (JNum 40) (JNum (-75))) empty_world =
     (\<lparr>mysql = empty_db\<lparr>locations := [place 1 40 (-75)],
                    user_locations := [\<lparr>ul_user_location_id = 1, ul_user_id = 5,
                                        ul_location_id = 1, ul_is_current = True\<rparr>]\<rparr>,
       pg = pg empty_world\<rparr>,
      Some (respond 201 (UpdatedBoth 1 1 PgFailed)),
      [GetConnection, BeginTransaction, InsertLocation, ClearCurrent, InsertUserLocation,
       UpsertUserLocation, PgSelect, Commit, Release])"
proof -
  have h: "primary_writes pg_down 5 (sent 5 (JNum 40) (JNum (-75))) (mysql empty_world) =
     Inr (empty_db\<lparr>locations := [place 1 40 (-75)],
                    user_locations := [\<lparr>ul_user_location_id = 1, ul_user_id = 5,
                                        ul_location_id = 1, ul_is_current = True\<rparr>]\<rparr>, 1, 1)"
    by (simp add: sample_defs update_defs)
  have u: "upsertUserLocation pg_down 5 (latitude (sent 5 (JNum 40) (JNum (-75))))
     (longitude (sent 5 (JNum 40) (JNum (-75)))) (pg empty_world) =
     (Inl QueryFailed, pg empty_world, [PgSelect])"
    by (simp add: sample_defs update_defs)
  have f: "\<not> fails pg_down GetConnection" "\<not> fails pg_down Commit"
    "user_id (sent 5 (JNum 40) (JNum (-75))) = Some 5"
    "truthy (latitude (sent 5 (JNum 40) (JNum (-75))))"
    "truthy (longitude (sent 5 (JNum 40) (JNum (-75))))"
    by (simp_all add: sample_defs)
  from mirror_failure_isolated[OF f(1) f(3) _ f(4) f(5) h f(2) u] h u f
  show ?thesis by (simp add: written_def)
qed

section \<open>No current location\<close>

lemma set_join_locations:
  "set (join_locations key ts ls) =
     {(t, l). t \<in> set ts \<and> l \<in> set ls \<and> key t = l_location_id l}"
  by (auto simp: join_locations_def)

lemma current_location_Nil:
  "current_rows db userId = [] \<Longrightarrow> current_location db userId = []"
  by (auto simp: current_rows_def current_location_def set_join_locations filter_empty_conv)

text \<open>
  C6.  The store answers the first query and no row of \<open>user_locations\<close> is current for
  the user: the answer is 404 "User location not found", and the query over the businesses
  was not sent.
\<close>

theorem findNearby_no_location:
  assumes "\<not> fails e SelectCurrentLocation" and "current_rows db userId = []"
  shows "get_businesses_nearby e userId qradius qlimit db =
           (respond 404 (ErrorBody ''User location not found''), [SelectCurrentLocation])"
  using assms by (simp add: get_businesses_nearby_def current_location_Nil Let_def)

theorem findNearby_no_location_witness:
  "\<not> fails no_faults SelectCurrentLocation \<and> current_rows rated_db 1 = [] \<and>
   get_businesses_nearby no_faults 1 (Some 5) None rated_db =
     (respond 404 (ErrorBody ''User location not found''), [SelectCurrentLocation])"
proof -
  have h: "\<not> fails no_faults SelectCurrentLocation" "current_rows rated_db 1 = []"
    by (simp_all add: sample_defs current_rows_def)
  from findNearby_no_location[OF h] h show ?thesis by simp
qed

text \<open>
  C7.  The store answers the first query and no row of \<open>user_locations\<close> is current for
  the user: the answer is 200 with \<open>locations: []\<close> and \<open>count: 0\<close> and no \<open>center\<close>, and
  the query over the users' locations was not sent.
\<close>

theorem buildHeatmap_no_location:
  assumes "\<not> fails e SelectCurrentLocation" and "current_rows db userId = []"
  shows "get_user_heatmap e userId qradius db =
           (respond 200 (Heatmap [] 0 None), [SelectCurrentLocation])"
  using assms by (simp add: get_user_heatmap_def current_location_Nil Let_def)

theorem buildHeatmap_no_location_witness:
  "\<not> fails no_faults SelectCurrentLocation \<and> current_rows rated_db 1 = [] \<and>
   get_user_heatmap no_faults 1 None rated_db =
     (respond 200 (Heatmap [] 0 None), [SelectCurrentLocation]) \<and>
   status (respond 200 (Heatmap [] 0 None)) \<noteq> 500"
proof -
  have h: "\<not> fails no_faults SelectCurrentLocation" "current_rows rated_db 1 = []"
    by (simp_all add: sample_defs current_rows_def)
  from buildHeatmap_no_location[OF h] h show ?thesis by (simp add: respond_def)
qed

section \<open>Rounding, evaluated\<close>

lemma pow2_powr: "pow2 e = 2 powr (of_int e)"
  by (simp add: pow2_def powr_real_of_int field_simps)

lemma rnd_value:
  assumes "pow2 e \<le> \<bar>x\<bar>" and "\<bar>x\<bar> < pow2 (e + 1)" and "rne (x / pow2 (e - 52)) = m"
  shows "rnd x = of_int m * pow2 (e - 52)"
proof -
  have "0 < pow2 e" by (simp add: pow2_powr)
  with assms(1) have x: "0 < \<bar>x\<bar>" by linarith
  then have nz: "x \<noteq> 0" by auto
  have "\<lfloor>log 2 \<bar>x\<bar>\<rfloor> = e"
    using assms(1,2) x by (simp add: floor_log_eq_powr_iff pow2_powr)
  with nz assms(3) show ?thesis by (simp add: rnd_def Let_def)
qed

lemma rnd_0: "rnd 0 = 0"
  by (simp add: rnd_def)

lemma fmul_0: "fmul x 0 = 0"
  by (simp add: fmul_def rnd_def)

lemma fsub_self: "fsub x x = 0"
  by (simp add: fsub_def rnd_def)

lemma radians_0: "libm_radians 0 = 0"
  by (simp add: libm_radians_def fmul_def rnd_def)

lemma rnd_40: "rnd 40 = 40"
  by (rule trans[OF rnd_value[where e = "5" and m = "5629499534213120"]])
     (simp_all add: pow2_def rne_def Let_def)

lemma rnd_minus_75: "rnd (- 75) = - 75"
  by (rule trans[OF rnd_value[where e = "6" and m = "- 5277655813324800"]])
     (simp_all add: pow2_def rne_def Let_def)

lemma rnd_41_1: "rnd (411 / 10) = 5784310771403981 / 140737488355328"
  by (rule trans[OF rnd_value[where e = "5" and m = "5784310771403981"]])
     (simp_all add: pow2_def rne_def Let_def)

lemma radians_40: "libm_radians 40 = 6288211335136391 / 9007199254740992"
  unfolding libm_radians_def deg_def fmul_def
  by (rule trans[OF rnd_value[where e = "- 1" and m = "6288211335136391"]])
     (simp_all add: pow2_def rne_def Let_def)

lemma radians_minus_75: "libm_radians (- 75) = - (5895198126690367 / 4503599627370496)"
  unfolding libm_radians_def deg_def fmul_def
  by (rule trans[OF rnd_value[where e = "0" and m = "- 5895198126690367"]])
     (simp_all add: pow2_def rne_def Let_def)

lemma radians_41_1: "libm_radians (5784310771403981 / 140737488355328) = 3230568573426321 / 4503599627370496"
  unfolding libm_radians_def deg_def fmul_def
  by (rule trans[OF rnd_value[where e = "- 1" and m = "6461137146852642"]])
     (simp_all add: pow2_def rne_def Let_def)

lemma cos_cos_40: "fmul (6899914937159737 / 9007199254740992) (6899914937159737 / 9007199254740992) = 5285641495604849 / 9007199254740992"
  unfolding fmul_def
  by (rule trans[OF rnd_value[where e = "- 1" and m = "5285641495604849"]])
     (simp_all add: pow2_def rne_def Let_def)

lemma cos_cos_40_one: "fmul (5285641495604849 / 9007199254740992) 1 = 5285641495604849 / 9007199254740992"
  unfolding fmul_def
  by (rule trans[OF rnd_value[where e = "- 1" and m = "5285641495604849"]])
     (simp_all add: pow2_def rne_def Let_def)

lemma sin_sin_40: "fmul (1447429019731335 / 2251799813685248) (1447429019731335 / 2251799813685248) = 1860778879568071 / 4503599627370496"
  unfolding fmul_def
  by (rule trans[OF rnd_value[where e = "- 2" and m = "7443115518272284"]])
     (simp_all add: pow2_def rne_def Let_def)

lemma argument_40: "fadd (5285641495604849 / 9007199254740992) (1860778879568071 / 4503599627370496) = 9007199254740991 / 9007199254740992"
  unfolding fadd_def
  by (rule trans[OF rnd_value[where e = "- 1" and m = "9007199254740991"]])
     (simp_all add: pow2_def rne_def Let_def)

lemma km_40: "fmul 6371 (1 / 67108864) = 6371 / 67108864"
  unfolding fmul_def
  by (rule trans[OF rnd_value[where e = "- 14" and m = "7004988580560896"]])
     (simp_all add: pow2_def rne_def Let_def)

lemma cos_cos_41_1: "fmul (6787495625539407 / 9007199254740992) (6787495625539407 / 9007199254740992) = 1278702057203501 / 2251799813685248"
  unfolding fmul_def
  by (rule trans[OF rnd_value[where e = "- 1" and m = "5114808228814004"]])
     (simp_all add: pow2_def rne_def Let_def)

lemma cos_cos_41_1_one: "fmul (1278702057203501 / 2251799813685248) 1 = 1278702057203501 / 2251799813685248"
  unfolding fmul_def
  by (rule trans[OF rnd_value[where e = "- 1" and m = "5114808228814004"]])
     (simp_all add: pow2_def rne_def Let_def)

lemma sin_sin_41_1: "fmul (1480277456000439 / 2251799813685248) (1480277456000439 / 2251799813685248) = 7784782051853979 / 18014398509481984"
  unfolding fmul_def
  by (rule trans[OF rnd_value[where e = "- 2" and m = "7784782051853979"]])
     (simp_all add: pow2_def rne_def Let_def)

lemma argument_41_1: "fadd (1278702057203501 / 2251799813685248) (7784782051853979 / 18014398509481984) = 4503599627370497 / 4503599627370496"
  unfolding fadd_def
  by (rule trans[OF rnd_value[where e = "0" and m = "4503599627370497"]])
     (simp_all add: pow2_def rne_def Let_def)

lemma longitudes_far: "fsub 0 (- (5895198126690367 / 4503599627370496)) = 5895198126690367 / 4503599627370496"
  unfolding fsub_def
  by (rule trans[OF rnd_value[where e = "0" and m = "5895198126690367"]])
     (simp_all add: pow2_def rne_def Let_def)

lemma cos_40_one: "fmul (6899914937159737 / 9007199254740992) 1 = 6899914937159737 / 9007199254740992"
  unfolding fmul_def
  by (rule trans[OF rnd_value[where e = "- 1" and m = "6899914937159737"]])
     (simp_all add: pow2_def rne_def Let_def)

lemma cos_cos_far: "fmul (6899914937159737 / 9007199254740992) (291404338770025 / 1125899906842624) = 3571658790648605 / 18014398509481984"
  unfolding fmul_def
  by (rule trans[OF rnd_value[where e = "- 3" and m = "7143317581297210"]])
     (simp_all add: pow2_def rne_def Let_def)

lemma argument_far: "fadd (3571658790648605 / 18014398509481984) 0 = 3571658790648605 / 18014398509481984"
  unfolding fadd_def
  by (rule trans[OF rnd_value[where e = "- 3" and m = "7143317581297210"]])
     (simp_all add: pow2_def rne_def Let_def)

lemma km_far: "fmul 6371 (6175367038784883 / 4503599627370496) = 1200661114627029 / 137438953472"
  unfolding fmul_def
  by (rule trans[OF rnd_value[where e = "13" and m = "4802644458508116"]])
     (simp_all add: pow2_def rne_def Let_def)

lemmas libm_defs = no_faults_def libm_cos_def libm_sin_def libm_acos_def

lemmas rounded =
  rnd_0 fmul_0 fsub_self radians_0 rnd_40 rnd_minus_75 rnd_41_1 radians_40 radians_minus_75
  radians_41_1 cos_cos_40 cos_cos_40_one sin_sin_40 argument_40 km_40 cos_cos_41_1
  cos_cos_41_1_one sin_sin_41_1 argument_41_1 longitudes_far cos_40_one cos_cos_far
  argument_far km_far

lemma distance_sample_own:
  "distance no_faults 40 (- 75) 40 40 (- 75) = Some (6371 / 67108864)"
  by (simp add: distance_def acos_sql_def libm_defs rounded)

lemma distance_sample_far:
  "distance no_faults 40 (- 75) 40 0 0 = Some (1200661114627029 / 137438953472)"
  by (simp add: distance_def acos_sql_def libm_defs rounded)

lemma distance_lone_own:
  "distance no_faults 41.1 (- 75) 41.1 41.1 (- 75) = None"
  by (simp add: distance_def acos_sql_def libm_defs rounded)

section \<open>Rows of the queries\<close>

lemma set_having_distance:
  "set (having_distance e a b r rows) =
     {(t, l, d). (t, l) \<in> set rows \<and> distance e a b a (l_latitude l) (l_longitude l) = Some d \<and> d < r}"
proof (induction rows)
  case Nil
  show ?case by (simp add: having_distance_def)
next
  case (Cons x xs)
  obtain t l where x: "x = (t, l)" by (cases x)
  have step: "having_distance e a b r (x # xs) =
      (case distance e a b a (l_latitude l) (l_longitude l) of
         None \<Rightarrow> having_distance e a b r xs
       | Some d \<Rightarrow> if d < r then (t, l, d) # having_distance e a b r xs
                   else having_distance e a b r xs)"
    by (simp add: having_distance_def x split: option.splits)
  show ?case
    unfolding step using Cons.IH
    by (auto simp: x split: option.splits)
qed

lemma sorted_take_sort_key: "sorted (map f (take n (sort_key f xs)))"
  by (simp add: take_map[symmetric] sorted_wrt_take)

text \<open>
  C5.  The store answers both queries, the user has a current location, which is the
  center, and the limit is not negative.  Then the answer is 200 with rows of which each
  is a business joined to its location, with the distance the store computes from the
  center to that location, and that distance is strictly below the radius; the rows are
  in ascending order of distance; and there are at most \<open>limit\<close> of them.  An absent
  radius is 10 and an absent limit is 20.
\<close>

theorem findNearby_within_sorted_capped:
  assumes "\<not> fails e SelectCurrentLocation" and "\<not> fails e SelectNearby"
    and "current_location db userId = center # others"
    and "0 \<le> or_default qlimit 20"
  shows "\<exists>rows.
    get_businesses_nearby e userId qradius qlimit db =
      (respond 200 (Businesses rows), [SelectCurrentLocation, SelectNearby]) \<and>
    (\<forall>(b, l, d) \<in> set rows.
       b \<in> set (businesses db) \<and> l \<in> set (locations db) \<and> b_location_id b = l_location_id l \<and>
       distance e (l_latitude center) (l_longitude center) (l_latitude center)
         (l_latitude l) (l_longitude l) = Some d \<and>
       d < or_default qradius 10) \<and>
    sorted (map row_distance rows) \<and>
    int (length rows) \<le> or_default qlimit 20"
proof -
  let ?rows = "nearby_query e db (l_latitude center) (l_longitude center) (or_default qradius 10)
                 (nat (or_default qlimit 20))"
  have r: "get_businesses_nearby e userId qradius qlimit db =
             (respond 200 (Businesses ?rows), [SelectCurrentLocation, SelectNearby])"
    using assms by (simp add: get_businesses_nearby_def Let_def)
  have m: "\<forall>(b, l, d) \<in> set ?rows.
       b \<in> set (businesses db) \<and> l \<in> set (locations db) \<and> b_location_id b = l_location_id l \<and>
       distance e (l_latitude center) (l_longitude center) (l_latitude center)
         (l_latitude l) (l_longitude l) = Some d \<and>
       d < or_default qradius 10"
    by (auto simp: nearby_query_def set_having_distance set_join_locations dest!: in_set_takeD)
  have s: "sorted (map row_distance ?rows)"
    by (simp add: nearby_query_def sorted_take_sort_key)
  have l: "int (length ?rows) \<le> or_default qlimit 20"
    using assms(4) by (simp add: nearby_query_def)
  from r m s l show ?thesis by blast
qed

lemmas query_defs =
  get_businesses_nearby_def get_user_heatmap_def get_recommendations_def nearby_query_def
  heatmap_query_def recommend_by_distance_def recommend_by_rating_def candidates_def liked_def
  preferences_def current_location_def join_locations_def having_distance_def
  row_distance_def format_location_def or_default_def respond_def server_error_def

lemmas store_defs =
  empty_db_def place_def shop_def sample_db_def rated_db_def lone_db_def crossed_db_def

lemma no_faults_fails: "\<not> fails no_faults ev"
  by (simp add: no_faults_def)

lemma sample_center: "current_location sample_db 5 = [place 1 40 (- 75)]"
  by (simp add: store_defs query_defs)

text \<open>
  On the sample store, with radius 30000 and limit 1: both businesses are within the
  radius, the one listed second is the nearer, at some 9.5 cm of the user with whom it
  shares its coordinates, and it alone is returned.  With the radius absent, the farther
  one is not within it.
\<close>

theorem findNearby_within_sorted_capped_witness:
  "\<not> fails no_faults SelectCurrentLocation \<and> \<not> fails no_faults SelectNearby \<and>
   current_location sample_db 5 = place 1 40 (- 75) # [] \<and>
   (0::int) \<le> or_default (Some 1) 20 \<and>
   get_businesses_nearby no_faults 5 (Some 30000) (Some 1) sample_db =
     (respond 200 (Businesses [(shop 2 3.2 3 3, place 3 40 (- 75), 6371 / 67108864)]),
      [SelectCurrentLocation, SelectNearby]) \<and>
   get_businesses_nearby no_faults 5 None None sample_db =
     (respond 200 (Businesses [(shop 2 3.2 3 3, place 3 40 (- 75), 6371 / 67108864)]),
      [SelectCurrentLocation, SelectNearby]) \<and>
   (\<exists>rows. get_businesses_nearby no_faults 5 (Some 30000) (Some 1) sample_db =
      (respond 200 (Businesses rows), [SelectCurrentLocation, SelectNearby]) \<and>
      sorted (map row_distance rows) \<and> int (length rows) \<le> or_default (Some 1) 20)"
proof -
  have h: "\<not> fails no_faults SelectCurrentLocation" "\<not> fails no_faults SelectNearby"
    "current_location sample_db 5 = place 1 40 (- 75) # []"
    "(0::int) \<le> or_default (Some 1) 20"
    by (simp_all add: sample_center no_faults_fails or_default_def)
  have d: "distance no_faults 40 (- 75) 40 (l_latitude (place 2 0 0)) (l_longitude (place 2 0 0)) =
             Some (1200661114627029 / 137438953472)"
    "distance no_faults 40 (- 75) 40 (l_latitude (place 3 40 (- 75)))
       (l_longitude (place 3 40 (- 75))) = Some (6371 / 67108864)"
    by (simp_all add: place_def distance_sample_far distance_sample_own)
  have v: "get_businesses_nearby no_faults 5 (Some 30000) (Some 1) sample_db =
     (respond 200 (Businesses [(shop 2 3.2 3 3, place 3 40 (- 75), 6371 / 67108864)]),
      [SelectCurrentLocation, SelectNearby])"
    "get_businesses_nearby no_faults 5 None None sample_db =
     (respond 200 (Businesses [(shop 2 3.2 3 3, place 3 40 (- 75), 6371 / 67108864)]),
      [SelectCurrentLocation, SelectNearby])"
    using d
    by (simp_all add: store_defs query_defs no_faults_fails distance_sample_far
          distance_sample_own)
  from findNearby_within_sorted_capped[OF h, of "Some 30000"] h v
  show ?thesis by blast
qed

section \<open>Heatmap\<close>

lemma set_heatmap_query:
  "set (heatmap_query e db a b r) =
     {(ul, l, d). ul \<in> set (user_locations db) \<and> l \<in> set (locations db) \<and>
        ul_location_id ul = l_location_id l \<and> ul_is_current ul \<and>
        distance e a b a (l_latitude l) (l_longitude l) = Some d \<and> d < r}"
  by (auto simp: heatmap_query_def set_having_distance set_join_locations)

text \<open>
  C8, amended.  The store answers both queries and the requesting user has a current
  location, the center.  Then the answer is 200; its points are, one for one and in
  ascending order of distance, the rows of \<open>user_locations\<close> that are current, of every
  user (the query leaves no user out, the requesting one neither), joined to their
  location, for which the store computes a distance from the center, and one strictly
  below the radius; \<open>count\<close> is the number of the points, and \<open>center\<close> holds the center's
  coordinates.
\<close>

theorem buildHeatmap_every_current_within:
  assumes "\<not> fails e SelectCurrentLocation" and "\<not> fails e SelectHeatmap"
    and "current_location db userId = center # others"
  shows "\<exists>rows.
    get_user_heatmap e userId qradius db =
      (respond 200 (Heatmap (map format_location rows) (length rows)
                      (Some (l_latitude center, l_longitude center))),
       [SelectCurrentLocation, SelectHeatmap]) \<and>
    set rows =
      {(ul, l, d). ul \<in> set (user_locations db) \<and> l \<in> set (locations db) \<and>
         ul_location_id ul = l_location_id l \<and> ul_is_current ul \<and>
         distance e (l_latitude center) (l_longitude center) (l_latitude center)
           (l_latitude l) (l_longitude l) = Some d \<and>
         d < or_default qradius 10} \<and>
    sorted (map row_distance rows)"
proof -
  let ?rows = "heatmap_query e db (l_latitude center) (l_longitude center)
                 (or_default qradius 10)"
  have r: "get_user_heatmap e userId qradius db =
      (respond 200 (Heatmap (map format_location ?rows) (length ?rows)
                      (Some (l_latitude center, l_longitude center))),
       [SelectCurrentLocation, SelectHeatmap])"
    using assms by (simp add: get_user_heatmap_def Let_def)
  have s: "sorted (map row_distance ?rows)"
    by (simp add: heatmap_query_def)
  from r s set_heatmap_query[of e db "l_latitude center" "l_longitude center"
      "or_default qradius 10"]
  show ?thesis by blast
qed

text \<open>
  C8 as stated fails.  In the sample store user 5 is the only user with a location, so
  no other user's location exists; the answer to user 5 has one point, location 1, which
  is the user's own, and \<open>count\<close> 1.
\<close>

theorem buildHeatmap_own_position_counterexample:
  "get_user_heatmap no_faults 5 None sample_db =
     (respond 200
        (Heatmap [\<lparr>h_location_id = 1, h_latitude = 40, h_longitude = - 75, h_city = JNull,
                   h_state = JNull, h_country = JNull, h_postal_code = JNull,
                   h_is_current = True\<rparr>] 1 (Some (40, - 75))),
      [SelectCurrentLocation, SelectHeatmap]) \<and>
   current_rows sample_db 5 = user_locations sample_db"
  by (simp add: store_defs query_defs no_faults_fails distance_sample_own current_rows_def)

text \<open>
  The row of the requesting user is returned for its distance, not for being the user's
  own: at (41.1, -75) the store computes no distance from the point to itself, and the
  answer to the only user there is has no point.
\<close>

lemma buildHeatmap_own_position_dropped:
  "get_user_heatmap no_faults 9 None lone_db =
     (respond 200 (Heatmap [] 0 (Some (41.1, - 75))), [SelectCurrentLocation, SelectHeatmap])"
  by (simp add: store_defs query_defs no_faults_fails distance_lone_own)

theorem buildHeatmap_every_current_within_witness:
  "\<not> fails no_faults SelectCurrentLocation \<and> \<not> fails no_faults SelectHeatmap \<and>
   current_location sample_db 5 = place 1 40 (- 75) # [] \<and>
   (\<exists>rows. get_user_heatmap no_faults 5 None sample_db =
      (respond 200 (Heatmap (map format_location rows) (length rows)
                      (Some (l_latitude (place 1 40 (- 75)), l_longitude (place 1 40 (- 75))))),
       [SelectCurrentLocation, SelectHeatmap]) \<and>
      (\<lparr>ul_user_location_id = 1, ul_user_id = 5, ul_location_id = 1, ul_is_current = True\<rparr>,
       place 1 40 (- 75), 6371 / 67108864) \<in> set rows)"
proof -
  have h: "\<not> fails no_faults SelectCurrentLocation" "\<not> fails no_faults SelectHeatmap"
    "current_location sample_db 5 = place 1 40 (- 75) # []"
    by (simp_all add: sample_center no_faults_fails)
  from buildHeatmap_every_current_within[OF h, of None] obtain rows where
    r: "get_user_heatmap no_faults 5 None sample_db =
      (respond 200 (Heatmap (map format_location rows) (length rows)
                      (Some (l_latitude (place 1 40 (- 75)), l_longitude (place 1 40 (- 75))))),
       [SelectCurrentLocation, SelectHeatmap])"
    and m: "set rows =
      {(ul, l, d). ul \<in> set (user_locations sample_db) \<and> l \<in> set (locations sample_db) \<and>
         ul_location_id ul = l_location_id l \<and> ul_is_current ul \<and>
         distance no_faults (l_latitude (place 1 40 (- 75))) (l_longitude (place 1 40 (- 75)))
           (l_latitude (place 1 40 (- 75))) (l_latitude l) (l_longitude l) = Some d \<and>
         d < or_default None 10}"
    by blast
  have "(\<lparr>ul_user_location_id = 1, ul_user_id = 5, ul_location_id = 1, ul_is_current = True\<rparr>,
       place 1 40 (- 75), 6371 / 67108864) \<in> set rows"
    unfolding m by (simp add: store_defs distance_sample_own or_default_def)
  with h r show ?thesis by blast
qed

section \<open>Recommendations\<close>

lemma set_liked: "b \<in> set (liked db u) \<longleftrightarrow> (\<exists>user. real user = u \<and> (user, b) \<in> set (user_business_likes db))"
  by (force simp: liked_def)

lemma sorted_descending:
  fixes f :: "'a \<Rightarrow> real"
  shows "sorted (map (\<lambda>x. - f x) xs) \<longleftrightarrow> sorted (rev (map f xs))"
  by (simp add: sorted_wrt_rev sorted_map rev_map[symmetric] sorted_wrt_map del: rev_map)

text \<open>
  What holds of the recommendations: a user without a row in \<open>user_preferences\<close> gets 404,
  and a user of a cluster who has no current location gets businesses of that cluster that
  the user does not like, by descending rating, at most \<open>limit\<close> of them (an absent limit
  is 10).  In \<open>rated_db\<close> the candidates rated 4.8, 3.2 and 4.9 come back as 4.9, 4.8, 3.2.
\<close>

lemma recommend_without_location:
  assumes "\<not> fails e SelectPreferences" and "\<not> fails e SelectCurrentLocation"
    and "\<not> fails e SelectRecommendations" and "0 \<le> or_default qlimit 10"
  shows
   "(preferences db userId = [] \<longrightarrow>
       get_recommendations e userId qlimit db =
         (respond 404 (ErrorBody ''User preferences not found''), [SelectPreferences])) \<and>
    (\<forall>clusterId others. preferences db userId = clusterId # others \<longrightarrow>
       current_location db userId = [] \<longrightarrow>
          (\<exists>rows. get_recommendations e userId qlimit db =
             (respond 200 (RecommendedByRating rows),
              [SelectPreferences, SelectCurrentLocation, SelectRecommendations]) \<and>
           (\<forall>(b, l) \<in> set rows.
              b \<in> set (businesses db) \<and> b_cluster_id b = clusterId \<and>
              (userId, b_business_id b) \<notin> set (user_business_likes db)) \<and>
           sorted (rev (map (\<lambda>(b, l). b_rating b) rows)) \<and>
           int (length rows) \<le> or_default qlimit 10))"
proof (intro conjI allI impI)
  assume "preferences db userId = []"
  with assms show "get_recommendations e userId qlimit db =
         (respond 404 (ErrorBody ''User preferences not found''), [SelectPreferences])"
    by (simp add: get_recommendations_def Let_def)
next
  fix clusterId others
  assume p: "preferences db userId = clusterId # others" and c: "current_location db userId = []"
  let ?rows = "recommend_by_rating db clusterId userId (nat (or_default qlimit 10))"
  have r: "get_recommendations e userId qlimit db =
             (respond 200 (RecommendedByRating ?rows),
              [SelectPreferences, SelectCurrentLocation, SelectRecommendations])"
    using assms p c by (simp add: get_recommendations_def Let_def)
  have m: "\<forall>(b, l) \<in> set ?rows.
              b \<in> set (businesses db) \<and> b_cluster_id b = clusterId \<and>
              (userId, b_business_id b) \<notin> set (user_business_likes db)"
    by (auto simp: recommend_by_rating_def candidates_def set_join_locations set_liked
          dest!: in_set_takeD)
  have "sorted (map (\<lambda>x. - (case x of (b, l) \<Rightarrow> b_rating b)) ?rows)"
    using sorted_take_sort_key[of "\<lambda>(b, l). - b_rating b" "nat (or_default qlimit 10)"
            "candidates db (real clusterId) (real userId)"]
    by (simp add: recommend_by_rating_def case_prod_unfold)
  then have s: "sorted (rev (map (\<lambda>(b, l). b_rating b) ?rows))"
    by (simp only: sorted_descending)
  have l: "int (length ?rows) \<le> or_default qlimit 10"
    using assms(4) by (simp add: recommend_by_rating_def)
  from r m s l
  show "\<exists>rows. get_recommendations e userId qlimit db =
             (respond 200 (RecommendedByRating rows),
              [SelectPreferences, SelectCurrentLocation, SelectRecommendations]) \<and>
           (\<forall>(b, l) \<in> set rows.
              b \<in> set (businesses db) \<and> b_cluster_id b = clusterId \<and>
              (userId, b_business_id b) \<notin> set (user_business_likes db)) \<and>
           sorted (rev (map (\<lambda>(b, l). b_rating b) rows)) \<and>
           int (length rows) \<le> or_default qlimit 10"
    by blast
qed

lemma recommend_rated_scenario:
  "get_recommendations no_faults 1 None rated_db =
      (respond 200 (RecommendedByRating
         [(shop 3 4.9 3 3, place 3 42 (- 73)), (shop 1 4.8 1 3, place 1 40 (- 75)),
          (shop 2 3.2 2 3, place 2 41 (- 74))]),
       [SelectPreferences, SelectCurrentLocation, SelectRecommendations])"
  by (simp add: store_defs query_defs no_faults_fails)

text \<open>
  C9 fails on the code for a user with a current location.  User 5 of \<open>crossed_db\<close> is in
  cluster 3 and at (45, 7), and likes nothing; business 1 is of cluster 3 and business 2
  of cluster 7.  The answer holds business 2 alone, the one whose cluster equals the
  user's longitude, with a distance computed from the cluster id 3, the user id 5 and the
  latitude 45 in place of the user's latitude, longitude and latitude.  By the claim it
  would hold business 1 alone.
\<close>

theorem recommend_crossed_parameters:
  "get_recommendations no_faults 5 None crossed_db =
     (respond 200 (RecommendedByDistance
        [(shop 2 3.2 3 7, place 3 45 7, distance no_faults 3 5 45 45 7)]),
      [SelectPreferences, SelectCurrentLocation, SelectRecommendations]) \<and>
   preferences crossed_db 5 = [3] \<and>
   b_cluster_id (shop 2 3.2 3 7) = 7 \<and>
   shop 1 4.8 2 3 \<in> set (businesses crossed_db) \<and>
   liked crossed_db 5 = []"
  by (simp add: store_defs query_defs no_faults_fails)

section \<open>Symmetry of the distance\<close>

text \<open>
  Rounding commutes with negation, and the product of two doubles does not depend on their
  order; so with a cosine that is even the distance between two points is the same in both
  directions, NULL included.
\<close>

lemma floor_minus_nonint:
  assumes "y \<notin> \<int>"
  shows "\<lfloor>- y\<rfloor> = - \<lfloor>y\<rfloor> - 1"
proof -
  have "y \<noteq> of_int \<lfloor>y\<rfloor>" using assms by (metis Ints_of_int)
  then show ?thesis by (simp add: floor_minus ceiling_altdef)
qed

lemma rne_minus: "rne (- y) = - rne y"
proof (cases "y \<in> \<int>")
  case True
  then obtain k where "y = of_int k" by (auto elim: Ints_cases)
  then show ?thesis by (simp add: rne_def del: of_int_minus add: of_int_minus[symmetric])
next
  case False
  have f: "\<lfloor>- y\<rfloor> = - \<lfloor>y\<rfloor> - 1" by (rule floor_minus_nonint[OF False])
  have h: "0 \<le> y - of_int \<lfloor>y\<rfloor>" "y - of_int \<lfloor>y\<rfloor> < 1" by linarith+
  show ?thesis
    unfolding rne_def Let_def f using h
    by (auto simp: algebra_simps)
qed

lemma rnd_minus: "rnd (- x) = - rnd x"
  by (simp add: rnd_def Let_def rne_minus)

lemma distance_symmetric:
  assumes "\<And>x. sql_cos e (- x) = sql_cos e x"
  shows "distance e lat1 lng1 lat1 lat2 lng2 = distance e lat2 lng2 lat2 lat1 lng1"
proof -
  let ?a = "sql_radians e (rnd lng1)" and ?b = "sql_radians e (rnd lng2)"
  have "fsub ?b ?a = - fsub ?a ?b"
    using rnd_minus[of "?a - ?b"] by (simp add: fsub_def)
  then have c: "sql_cos e (fsub ?b ?a) = sql_cos e (fsub ?a ?b)"
    by (simp add: assms)
  show ?thesis
    unfolding distance_def c fmul_def
    by (simp only: mult.commute)
qed

section \<open>The distance of a point to itself\<close>

text \<open>
  C10 fails on the code.  With the sample of the store's functions, the distance the
  expression gives from (40, -75) to (40, -75) is \<open>6371 / 2 ^ 26\<close> km, some 9.5 cm, not 0:
  the sum of the squares of the cosine and the sine rounds to \<open>1 - 2 ^ -53\<close>.  From
  (41.1, -75) to itself the expression is NULL: the sum rounds to \<open>1 + 2 ^ -52\<close>, outside
  the domain of \<open>ACOS\<close>.
\<close>

theorem distance_of_a_point_to_itself:
  "distance no_faults 40 (- 75) 40 40 (- 75) = Some (6371 / 2 ^ 26) \<and>
   distance no_faults 40 (- 75) 40 40 (- 75) \<noteq> Some 0 \<and>
   distance no_faults 41.1 (- 75) 41.1 41.1 (- 75) = None"
  by (simp add: distance_sample_own distance_lone_own)

section \<open>The mirror write and the COMMIT\<close>

lemma upsertUserLocation_stored:
  "upsertUserLocation e u la lo db = (Inr (Some row), db', t) \<Longrightarrow>
   fst row = u \<and> db' u = Some (snd row) \<and> la = JNum (snd (snd row)) \<and> lo = JNum (fst (snd row))"
  by (cases la; cases lo)
     (auto simp: upsertUserLocation_def getUserLocation_def updateUserLocation_def
        insertUserLocation_def split: sum.splits option.splits if_splits prod.splits)

text \<open>
  C2, amended.  Whenever the router's update calls \<open>upsertUserLocation\<close>, it does so after
  the three writes to the relational store, inside the transaction they opened, and
  before the COMMIT, which is attempted next whatever the call returned or threw.  The
  geometry store keeps what the call made of it.  So when the COMMIT then fails, the
  relational store is rolled back to what it was, the answer is 500, and the geometry
  store holds the new point if the call had stored it.
\<close>

theorem mirror_write_inside_transaction:
  assumes "UpsertUserLocation \<in> set (snd (snd (post_location e req w)))"
  shows "\<exists>userId res pg' pgt rest.
    user_id req = Some userId \<and>
    upsertUserLocation e userId (latitude req) (longitude req) (pg w) = (res, pg', pgt) \<and>
    snd (snd (post_location e req w)) = written @ UpsertUserLocation # pgt @ Commit # rest \<and>
    Commit \<notin> set written \<and> Commit \<notin> set pgt \<and>
    (rest = [Release] \<or> rest = [Rollback, Release]) \<and>
    pg (fst (post_location e req w)) = pg' \<and>
    (fails e Commit \<longrightarrow>
       mysql (fst (post_location e req w)) = mysql w \<and> rest = [Rollback, Release] \<and>
       fst (snd (post_location e req w)) =
         Some (respond 500 (ErrorBody ''Failed to update location'')) \<and>
       (\<forall>lon lat. res = Inr (Some (userId, lon, lat)) \<longrightarrow>
          pg (fst (post_location e req w)) userId = Some (lon, lat)))"
proof -
  obtain w' r t where pl: "post_location e req w = (w', r, t)"
    by (cases "post_location e req w")
  with assms have int: "UpsertUserLocation \<in> set t" by simp
  have nf: "\<not> fails e GetConnection" "\<not> no_user_id (user_id req)"
    "truthy (latitude req)" "truthy (longitude req)"
    using pl int by (auto simp: post_location_def rejected_def split: if_splits)
  then obtain userId where u: "user_id req = Some userId"
    by (auto simp: no_user_id_def split: option.splits)
  obtain db3 locationId userLocationId where
    pw: "primary_writes e userId req (mysql w) = Inr (db3, locationId, userLocationId)"
    using pl int nf u
    by (cases "primary_writes e userId req (mysql w)")
       (auto simp: post_location_def failed_def primary_writes_def
          split: if_splits option.splits prod.splits)
  obtain res pg' pgt where
    up: "upsertUserLocation e userId (latitude req) (longitude req) (pg w) = (res, pg', pgt)"
    by (cases "upsertUserLocation e userId (latitude req) (longitude req) (pg w)")
  have ev: "Commit \<notin> set pgt" using upsertUserLocation_events[OF up] by auto
  have st: "\<forall>lon lat. res = Inr (Some (userId, lon, lat)) \<longrightarrow> pg' userId = Some (lon, lat)"
    using up by (auto dest: upsertUserLocation_stored)
  show ?thesis
  proof (cases "fails e Commit")
    case True
    with pl nf u pw up have
      "w' = w\<lparr>pg := pg'\<rparr>" "r = Some (respond 500 (ErrorBody ''Failed to update location''))"
      "t = written @ UpsertUserLocation # pgt @ Commit # [Rollback, Release]"
      by (auto simp: post_location_def failed_def)
    with pl u up ev st True show ?thesis by (auto simp: written_def)
  next
    case False
    with pl nf u pw up have
      "w' = \<lparr>mysql = db3, pg = pg'\<rparr>"
      "t = written @ UpsertUserLocation # pgt @ Commit # [Release]"
      by (auto simp: post_location_def)
    with pl u up ev False show ?thesis by (auto simp: written_def)
  qed
qed

theorem mirror_write_inside_transaction_witness:
  "UpsertUserLocation \<in>
     set (snd (snd (post_location no_faults (sent 5 (JNum 40) (JNum (- 75))) empty_world))) \<and>
   (\<exists>pgt rest.
      snd (snd (post_location no_faults (sent 5 (JNum 40) (JNum (- 75))) empty_world)) =
        written @ UpsertUserLocation # pgt @ Commit # rest \<and>
      Commit \<notin> set written \<and> Commit \<notin> set pgt) \<and>
   snd (snd (post_location no_faults (sent 5 (JNum 40) (JNum (- 75))) empty_world)) =
     [GetConnection, BeginTransaction, InsertLocation, ClearCurrent, InsertUserLocation,
      UpsertUserLocation, PgSelect, PgInsert, Commit, Release]"
proof -
  have t: "snd (snd (post_location no_faults (sent 5 (JNum 40) (JNum (- 75))) empty_world)) =
     [GetConnection, BeginTransaction, InsertLocation, ClearCurrent, InsertUserLocation,
      UpsertUserLocation, PgSelect, PgInsert, Commit, Release]"
    by (simp add: sample_defs update_defs)
  have h: "UpsertUserLocation \<in>
     set (snd (snd (post_location no_faults (sent 5 (JNum 40) (JNum (- 75))) empty_world)))"
    unfolding t by simp
  from mirror_write_inside_transaction[OF h] have
    "\<exists>pgt rest.
      snd (snd (post_location no_faults (sent 5 (JNum 40) (JNum (- 75))) empty_world)) =
        written @ UpsertUserLocation # pgt @ Commit # rest \<and>
      Commit \<notin> set written \<and> Commit \<notin> set pgt"
    by blast
  with h t show ?thesis by blast
qed

text \<open>
  C2 as stated fails.  User 5 sends (40, -75) and the relational store rejects the COMMIT:
  the mirror write and its two statements come before the COMMIT; the answer is 500, the
  relational store is still empty, and the geometry store, empty before, now holds the
  point for user 5.
\<close>

theorem mirror_write_after_commit_counterexample:
  "snd (snd (post_location commit_down (sent 5 (JNum 40) (JNum (- 75))) empty_world)) =
     [GetConnection, BeginTransaction, InsertLocation, ClearCurrent, InsertUserLocation,
      UpsertUserLocation, PgSelect, PgInsert, Commit, Rollback, Release] \<and>
   fst (snd (post_location commit_down (sent 5 (JNum 40) (JNum (- 75))) empty_world)) =
     Some (respond 500 (ErrorBody ''Failed to update location'')) \<and>
   mysql (fst (post_location commit_down (sent 5 (JNum 40) (JNum (- 75))) empty_world)) =
     empty_db \<and>
   pg (fst (post_location commit_down (sent 5 (JNum 40) (JNum (- 75))) empty_world)) 5 =
     Some (- 75, 40) \<and>
   pg empty_world 5 = None"
  by (simp add: sample_defs update_defs)

section \<open>The check of the coordinates\<close>

text \<open>
  C4, amended.  With a connection at hand (and, for the router, a user id in the body):
  when latitude or longitude is absent, null or the empty string, both handlers answer 400
  "Latitude and longitude are required" without having sent a statement to either store,
  and both stores are as they were.  When both are truthy, the handlers do not answer 400
  and begin the transaction; a non-zero number is truthy whatever its range, and so is a
  non-empty string, numeric or not: the check looks at neither type nor range.
\<close>

theorem validation_required_coordinates:
  assumes "\<not> fails e GetConnection"
  shows
   "(latitude req \<in> {JUndefined, JNull, JStr []} \<or> longitude req \<in> {JUndefined, JNull, JStr []} \<longrightarrow>
       post_api_user_location e userId req w =
         (w, Some (respond 400 (ErrorBody ''Latitude and longitude are required'')),
          [GetConnection, Release, Release]) \<and>
       (\<not> no_user_id (user_id req) \<longrightarrow>
          post_location e req w =
            (w, Some (respond 400 (ErrorBody ''Latitude and longitude are required'')),
             [GetConnection, Release, Release]))) \<and>
    (truthy (latitude req) \<and> truthy (longitude req) \<longrightarrow>
       (\<exists>a rest. fst (snd (post_api_user_location e userId req w)) = Some a \<and> status a \<noteq> 400 \<and>
          snd (snd (post_api_user_location e userId req w)) =
            GetConnection # BeginTransaction # rest) \<and>
       (\<not> no_user_id (user_id req) \<longrightarrow>
          (\<exists>a rest. fst (snd (post_location e req w)) = Some a \<and> status a \<noteq> 400 \<and>
             snd (snd (post_location e req w)) = GetConnection # BeginTransaction # rest))) \<and>
    (\<forall>x s. x \<noteq> 0 \<and> s \<noteq> [] \<longrightarrow> truthy (JNum x) \<and> truthy (JStr s))"
proof (intro conjI impI allI)
  assume m: "latitude req \<in> {JUndefined, JNull, JStr []} \<or>
             longitude req \<in> {JUndefined, JNull, JStr []}"
  then have f: "\<not> truthy (latitude req) \<or> \<not> truthy (longitude req)" by auto
  with assms show "post_api_user_location e userId req w =
         (w, Some (respond 400 (ErrorBody ''Latitude and longitude are required'')),
          [GetConnection, Release, Release])"
    by (auto simp: post_api_user_location_def rejected_def)
  assume "\<not> no_user_id (user_id req)"
  with assms f show "post_location e req w =
            (w, Some (respond 400 (ErrorBody ''Latitude and longitude are required'')),
             [GetConnection, Release, Release])"
    by (auto simp: post_location_def rejected_def)
next
  assume t: "truthy (latitude req) \<and> truthy (longitude req)"
  with assms show "\<exists>a rest. fst (snd (post_api_user_location e userId req w)) = Some a \<and>
          status a \<noteq> 400 \<and>
          snd (snd (post_api_user_location e userId req w)) =
            GetConnection # BeginTransaction # rest"
    by (auto simp: post_api_user_location_def failed_def primary_writes_def respond_def
          written_def split: sum.splits if_splits option.splits prod.splits)
  assume "\<not> no_user_id (user_id req)"
  with assms t show "\<exists>a rest. fst (snd (post_location e req w)) = Some a \<and> status a \<noteq> 400 \<and>
             snd (snd (post_location e req w)) = GetConnection # BeginTransaction # rest"
    by (auto simp: post_location_def failed_def primary_writes_def respond_def Let_def
          written_def split: sum.splits if_splits option.splits prod.splits)
qed simp_all

text \<open>
  C4 as stated fails.  A latitude of "north" is not numeric, yet neither handler answers
  400: each opens the transaction and sends the INSERT, which the store here rejects, and
  the answer is 500.
\<close>

theorem validation_non_numeric_counterexample:
  "post_location no_faults (sent 5 (JStr ''north'') (JNum (- 75))) empty_world =
     (empty_world, Some (respond 500 (ErrorBody ''Failed to update location'')),
      [GetConnection, BeginTransaction, InsertLocation, Rollback, Release]) \<and>
   post_api_user_location no_faults 5 (sent 5 (JStr ''north'') (JNum (- 75))) empty_world =
     (empty_world, Some (respond 500 (ErrorBody ''Failed to update location'')),
      [GetConnection, BeginTransaction, InsertLocation, Rollback, Release])"
  by (simp add: sample_defs update_defs)

text \<open>A latitude of 0 is a number, and is taken for a missing one.\<close>

lemma validation_zero:
  "post_location no_faults (sent 5 (JNum 0) (JNum 10)) empty_world =
     (empty_world, Some (respond 400 (ErrorBody ''Latitude and longitude are required'')),
      [GetConnection, Release, Release])"
  by (simp add: sample_defs update_defs)

theorem validation_required_coordinates_witness:
  "\<not> fails no_faults GetConnection \<and>
   latitude (sent 5 JUndefined (JNum (- 75))) \<in> {JUndefined, JNull, JStr []} \<and>
   \<not> no_user_id (user_id (sent 5 JUndefined (JNum (- 75)))) \<and>
   post_location no_faults (sent 5 JUndefined (JNum (- 75))) empty_world =
     (empty_world, Some (respond 400 (ErrorBody ''Latitude and longitude are required'')),
      [GetConnection, Release, Release]) \<and>
   truthy (latitude (sent 5 (JNum 40) (JNum (- 75)))) \<and>
   truthy (longitude (sent 5 (JNum 40) (JNum (- 75)))) \<and>
   \<not> no_user_id (user_id (sent 5 (JNum 40) (JNum (- 75)))) \<and>
   (\<exists>a rest. fst (snd (post_location no_faults (sent 5 (JNum 40) (JNum (- 75))) empty_world)) =
        Some a \<and> status a \<noteq> 400 \<and>
      snd (snd (post_location no_faults (sent 5 (JNum 40) (JNum (- 75))) empty_world)) =
        GetConnection # BeginTransaction # rest)"
proof -
  have h: "\<not> fails no_faults GetConnection" by (simp add: no_faults_def)
  have a: "latitude (sent 5 JUndefined (JNum (- 75))) \<in> {JUndefined, JNull, JStr []}"
    "\<not> no_user_id (user_id (sent 5 JUndefined (JNum (- 75))))"
    "truthy (latitude (sent 5 (JNum 40) (JNum (- 75))))"
    "truthy (longitude (sent 5 (JNum 40) (JNum (- 75))))"
    "\<not> no_user_id (user_id (sent 5 (JNum 40) (JNum (- 75))))"
    by (simp_all add: sent_def no_user_id_def)
  from validation_required_coordinates[OF h, of "sent 5 JUndefined (JNum (- 75))" 5 empty_world]
    validation_required_coordinates[OF h, of "sent 5 (JNum 40) (JNum (- 75))" 5 empty_world]
    h a
  show ?thesis by blast
qed

end
